theory Spec2Isabelle
  imports Main "HOL-Library.AList" "HOL-Library.Multiset"
begin

section \<open>tmplmgr: a caching layer over html/template\<close>

text \<open>
  The package \<^verbatim>\<open>tmplmgr\<close> (file \<^verbatim>\<open>src/tmplmgr.go\<close>) keeps, for one base template file,
  a registry of functions and block globs, a compiled template and a cache of per-call
  compositions. Everything it does with a template goes through Go's
  \<^verbatim>\<open>html/template\<close>, which is not part of the package: here the engine is a parameter,
  a record of operations over an abstract world \<open>'w\<close> (the file system, the heap of
  template objects, the output sinks). A \<^verbatim>\<open>*template.Template\<close> is a pointer
  \<open>'h option\<close>, \<open>None\<close> being \<^verbatim>\<open>nil\<close>; what a method does on a nil receiver is
  the engine's business, so the operations take the pointer as it is.

  The lock \<^verbatim>\<open>compile_lock\<close> and the calls of \<^verbatim>\<open>log.Printf\<close> are left out: the model
  is sequential, every deferred unlock runs also when a panic unwinds, and the log is
  not read back.
\<close>

subsection \<open>Values of the Go run time\<close>

text \<open>An \<^verbatim>\<open>error\<close> is modelled by its message; \<open>None\<close> of \<open>error option\<close> is the nil error.\<close>

datatype error = Error string

text \<open>
  A call either returns or panics. The panic value is modelled by its \<^verbatim>\<open>%v\<close> rendering,
  which is all that \<^verbatim>\<open>fmt.Errorf("%v", e)\<close> keeps of it. A panic with the nil value,
  which \<^verbatim>\<open>recover\<close> cannot tell from no panic, is not modelled.
\<close>

datatype 'a res = Panic string | Ret 'a

definition fmt_Errorf_v :: "string \<Rightarrow> error" where
  "fmt_Errorf_v e = Error e"

text \<open>\<^verbatim>\<open>type Mode bool\<close> with \<^verbatim>\<open>Development = true\<close> and \<^verbatim>\<open>Production = false\<close>.\<close>

type_synonym Mode = bool

abbreviation (input) Development :: Mode where
  "Development \<equiv> True"

abbreviation (input) Production :: Mode where
  "Production \<equiv> False"

text \<open>
  \<^verbatim>\<open>strings.Join(elems, sep)\<close>: the elements in order, \<open>sep\<close> between two neighbours.
\<close>

fun strings_Join :: "string list \<Rightarrow> string \<Rightarrow> string" where
  "strings_Join [] sep = []"
| "strings_Join [x] sep = x"
| "strings_Join (x # y # ys) sep = x @ sep @ strings_Join (y # ys) sep"

subsection \<open>The templating engine, a parameter\<close>

text \<open>
  One field for each function of \<^verbatim>\<open>html/template\<close> and \<^verbatim>\<open>path/filepath\<close> that the
  package calls. A function that returns \<^verbatim>\<open>(*Template, error)\<close> returns the pair.
  \<open>'f\<close> is the type of callables, \<open>'c\<close> of rendering contexts, \<open>'s\<close> of output sinks.
\<close>

record ('h, 'f, 'c, 's, 'w) engine =
  filepath_Base :: "string \<Rightarrow> string"
  template_New :: "string \<Rightarrow> 'w \<Rightarrow> 'h option res \<times> 'w"
  tmpl_Delims :: "'h option \<Rightarrow> string \<Rightarrow> string \<Rightarrow> 'w \<Rightarrow> 'h option res \<times> 'w"
  tmpl_ParseFiles :: "'h option \<Rightarrow> string list \<Rightarrow> 'w \<Rightarrow> ('h option \<times> error option) res \<times> 'w"
  tmpl_Funcs :: "'h option \<Rightarrow> (string \<times> 'f) list \<Rightarrow> 'w \<Rightarrow> 'h option res \<times> 'w"
  tmpl_ParseGlob :: "'h option \<Rightarrow> string \<Rightarrow> 'w \<Rightarrow> ('h option \<times> error option) res \<times> 'w"
  tmpl_Clone :: "'h option \<Rightarrow> 'w \<Rightarrow> ('h option \<times> error option) res \<times> 'w"
  tmpl_Execute :: "'h option \<Rightarrow> 's \<Rightarrow> 'c \<Rightarrow> 'w \<Rightarrow> error option res \<times> 'w"

subsection \<open>The manager\<close>

text \<open>
  \<^verbatim>\<open>type Template struct\<close>. The field \<^verbatim>\<open>t\<close> is called \<open>t_field\<close>, so that \<open>t\<close> stays
  free for the receiver. \<^verbatim>\<open>funcs\<close> is a \<^verbatim>\<open>template.FuncMap\<close>, a finite map, kept as an
  association list with one pair for each name; \<^verbatim>\<open>compiled\<close> is a map from keys to
  pointers.
\<close>

record ('h, 'f) Template =
  t_field :: "'h option"
  dirty :: bool
  base :: string
  funcs :: "(string \<times> 'f) list"
  blocks :: "string list"
  compiled :: "string \<rightharpoonup> 'h option"

text \<open>\<^verbatim>\<open>Parse\<close>: the fields it does not name have their zero values.\<close>

definition Parse :: "string \<Rightarrow> ('h, 'f) Template" where
  "Parse file =
     \<lparr>t_field = None, dirty = False, base = file, funcs = [], blocks = [],
      compiled = Map.empty\<rparr>"

definition Blocks :: "('h, 'f) Template \<Rightarrow> string list \<Rightarrow> ('h, 'f) Template" where
  "Blocks t globs = t\<lparr>blocks := blocks t @ globs, dirty := True\<rparr>"

definition Call :: "('h, 'f) Template \<Rightarrow> string \<Rightarrow> 'f \<Rightarrow> ('h, 'f) Template" where
  "Call t name fnc = t\<lparr>funcs := AList.update name fnc (funcs t), dirty := True\<rparr>"

text \<open>
  The loop of \<^verbatim>\<open>Compile\<close> (lines 104 to 109) and of \<^verbatim>\<open>getCachedGlobs\<close> (lines 126 to
  131), the same text in both: parse each glob into \<open>tmpl\<close>, return at the first error.
  Before the loop \<^verbatim>\<open>err\<close> is nil in both functions.
\<close>

fun ParseGlob_loop ::
  "('h, 'f, 'c, 's, 'w) engine \<Rightarrow> 'h option \<Rightarrow> string list \<Rightarrow> 'w \<Rightarrow>
     ('h option \<times> error option) res \<times> 'w" where
  "ParseGlob_loop eng tmpl [] w = (Ret (tmpl, None), w)"
| "ParseGlob_loop eng tmpl (glob # globs) w =
     (case tmpl_ParseGlob eng tmpl glob w of
        (Panic e, w') \<Rightarrow> (Panic e, w')
      | (Ret (tmpl', Some err), w') \<Rightarrow> (Ret (tmpl', Some err), w')
      | (Ret (tmpl', None), w') \<Rightarrow> ParseGlob_loop eng tmpl' globs w')"

text \<open>
  \<^verbatim>\<open>Compile\<close>. A panic of \<^verbatim>\<open>New\<close>, \<^verbatim>\<open>Delims\<close> or \<^verbatim>\<open>ParseFiles\<close> comes before the
  deferred \<^verbatim>\<open>recover\<close> is registered and leaves the function as a panic; one of
  \<^verbatim>\<open>Funcs\<close> or of the loop is recovered and becomes the returned error. The results of
  \<^verbatim>\<open>Delims\<close> and \<^verbatim>\<open>Funcs\<close> are dropped, as in the source. The three fields are
  assigned only after the loop.
\<close>

definition Compile ::
  "('h, 'f, 'c, 's, 'w) engine \<Rightarrow> ('h, 'f) Template \<Rightarrow> 'w \<Rightarrow>
     error option res \<times> ('h, 'f) Template \<times> 'w" where
  "Compile eng t w =
     (case template_New eng (filepath_Base eng (base t)) w of
        (Panic e, w0) \<Rightarrow> (Panic e, t, w0)
      | (Ret tmpl0, w0) \<Rightarrow>
     (case tmpl_Delims eng tmpl0 ''{%'' ''%}'' w0 of
        (Panic e, w1) \<Rightarrow> (Panic e, t, w1)
      | (Ret _, w1) \<Rightarrow>
     (case tmpl_ParseFiles eng tmpl0 [base t] w1 of
        (Panic e, w2) \<Rightarrow> (Panic e, t, w2)
      | (Ret (_, Some err), w2) \<Rightarrow> (Ret (Some err), t, w2)
      | (Ret (tmpl, None), w2) \<Rightarrow>
     (case tmpl_Funcs eng tmpl (funcs t) w2 of
        (Panic e, w3) \<Rightarrow> (Ret (Some (fmt_Errorf_v e)), t, w3)
      | (Ret _, w3) \<Rightarrow>
     (case ParseGlob_loop eng tmpl (blocks t) w3 of
        (Panic e, w4) \<Rightarrow> (Ret (Some (fmt_Errorf_v e)), t, w4)
      | (Ret (_, Some err), w4) \<Rightarrow> (Ret (Some err), t, w4)
      | (Ret (tmpl', None), w4) \<Rightarrow>
          (Ret None, t\<lparr>t_field := tmpl', dirty := False, compiled := Map.empty\<rparr>, w4))))))"

text \<open>
  \<^verbatim>\<open>getCachedGlobs\<close>, with the global \<^verbatim>\<open>compile_mode\<close> as an argument. The error of
  \<^verbatim>\<open>Clone\<close> is assigned to the blank identifier.
\<close>

definition getCachedGlobs ::
  "('h, 'f, 'c, 's, 'w) engine \<Rightarrow> Mode \<Rightarrow> ('h, 'f) Template \<Rightarrow> string list \<Rightarrow> 'w \<Rightarrow>
     ('h option \<times> error option) res \<times> ('h, 'f) Template \<times> 'w" where
  "getCachedGlobs eng compile_mode t globs w =
     (let key = strings_Join globs '','' in
      case (compiled t key, compile_mode) of
        (Some cached, Production) \<Rightarrow> (Ret (cached, None), t, w)
      | _ \<Rightarrow>
     (case tmpl_Clone eng (t_field t) w of
        (Panic e, w0) \<Rightarrow> (Panic e, t, w0)
      | (Ret (tmpl, _), w0) \<Rightarrow>
     (case ParseGlob_loop eng tmpl globs w0 of
        (Panic e, w1) \<Rightarrow> (Panic e, t, w1)
      | (Ret (tmpl', Some err), w1) \<Rightarrow> (Ret (tmpl', Some err), t, w1)
      | (Ret (tmpl', None), w1) \<Rightarrow>
          (Ret (tmpl', None), t\<lparr>compiled := (compiled t)(key \<mapsto> tmpl')\<rparr>, w1))))"

text \<open>\<^verbatim>\<open>Execute\<close>, with the global \<^verbatim>\<open>compile_mode\<close> as an argument.\<close>

definition Execute ::
  "('h, 'f, 'c, 's, 'w) engine \<Rightarrow> Mode \<Rightarrow> ('h, 'f) Template \<Rightarrow> 's \<Rightarrow> 'c \<Rightarrow> string list \<Rightarrow>
     'w \<Rightarrow> error option res \<times> ('h, 'f) Template \<times> 'w" where
  "Execute eng compile_mode t wr ctx globs w =
     (case (if dirty t \<or> compile_mode = Development then Compile eng t w
            else (Ret None, t, w)) of
        (Panic e, t1, w1) \<Rightarrow> (Panic e, t1, w1)
      | (Ret (Some err), t1, w1) \<Rightarrow> (Ret (Some err), t1, w1)
      | (Ret None, t1, w1) \<Rightarrow>
     (if length globs > 0 then
        (case getCachedGlobs eng compile_mode t1 globs w1 of
           (Panic e, t2, w2) \<Rightarrow> (Panic e, t2, w2)
         | (Ret (_, Some err), t2, w2) \<Rightarrow> (Ret (Some err), t2, w2)
         | (Ret (tmpl, None), t2, w2) \<Rightarrow>
             (case tmpl_Execute eng tmpl wr ctx w2 of (r, w3) \<Rightarrow> (r, t2, w3)))
      else
        (case tmpl_Execute eng (t_field t1) wr ctx w1 of (r, w3) \<Rightarrow> (r, t1, w3))))"

subsection \<open>A small engine to run the manager on\<close>

text \<open>
  An instance of the parameter, for evaluating the definitions on concrete inputs. A
  template is the list of the files parsed into it; the world is the list of the
  templates executed so far, in order. Every file exists but \<^verbatim>\<open>missing.tmpl\<close>; a
  callable is \<open>True\<close> when its signature is valid. As in \<^verbatim>\<open>html/template\<close>,
  \<^verbatim>\<open>Funcs\<close> panics on an invalid callable, \<^verbatim>\<open>Clone\<close> fails on a template that has
  been executed, \<^verbatim>\<open>ParseGlob\<close> on a nil receiver starts a new template, and
  \<^verbatim>\<open>Clone\<close> and \<^verbatim>\<open>Execute\<close> on a nil receiver panic.
\<close>

definition test_exists :: "string \<Rightarrow> bool" where
  "test_exists name = (name \<noteq> ''missing.tmpl'')"

definition test_engine :: "(string list, bool, unit, unit, string list list) engine" where
  "test_engine =
     \<lparr>filepath_Base = (\<lambda>path. path),
      template_New = (\<lambda>name w. (Ret (Some []), w)),
      tmpl_Delims = (\<lambda>tmpl l r w. (Ret tmpl, w)),
      tmpl_ParseFiles = (\<lambda>tmpl names w.
        case tmpl of
          None \<Rightarrow> (Panic ''nil pointer dereference'', w)
        | Some fs \<Rightarrow>
            if list_all test_exists names then (Ret (Some (fs @ names), None), w)
            else (Ret (None, Some (Error ''no such file'')), w)),
      tmpl_Funcs = (\<lambda>tmpl fm w.
        case tmpl of
          None \<Rightarrow> (Panic ''nil pointer dereference'', w)
        | Some fs \<Rightarrow>
            if list_all snd fm then (Ret tmpl, w)
            else (Panic ''bad function signature'', w)),
      tmpl_ParseGlob = (\<lambda>tmpl glob w.
        if test_exists glob
        then (Ret (Some ((case tmpl of None \<Rightarrow> [] | Some fs \<Rightarrow> fs) @ [glob]), None), w)
        else (Ret (None, Some (Error ''pattern matches no files'')), w)),
      tmpl_Clone = (\<lambda>tmpl w.
        case tmpl of
          None \<Rightarrow> (Panic ''nil pointer dereference'', w)
        | Some fs \<Rightarrow>
            if fs \<in> set w then (Ret (None, Some (Error ''cannot Clone after it has executed'')), w)
            else (Ret (Some fs, None), w)),
      tmpl_Execute = (\<lambda>tmpl wr ctx w.
        case tmpl of
          None \<Rightarrow> (Panic ''nil pointer dereference'', w)
        | Some fs \<Rightarrow> (Ret None, w @ [fs]))\<rparr>"

text \<open>A manager whose base and cache are left from an earlier compilation, with a
  registration since.\<close>

definition test_stale :: "(string list, bool) Template" where
  "test_stale =
     \<lparr>t_field = Some [''old.tmpl''], dirty = True, base = ''base.tmpl'', funcs = [],
      blocks = [''x.tmpl''], compiled = [''a.tmpl'' \<mapsto> Some [''old.tmpl'', ''a.tmpl'']]\<rparr>"

text \<open>The manager that a first, successful compilation of \<^verbatim>\<open>base.tmpl\<close> leaves.\<close>

definition test_clean :: "(string list, bool) Template" where
  "test_clean =
     \<lparr>t_field = Some [''base.tmpl''], dirty = False, base = ''base.tmpl'', funcs = [],
      blocks = [], compiled = Map.empty\<rparr>"

text \<open>The world after that manager's base has been executed once.\<close>

definition test_rendered :: "string list list" where
  "test_rendered = [[''base.tmpl'']]"

lemmas test_defs = test_engine_def test_exists_def test_stale_def test_clean_def test_rendered_def Parse_def Blocks_def Call_def
  Compile_def getCachedGlobs_def Execute_def Let_def fmt_Errorf_v_def

subsection \<open>An engine that resolves function names while parsing\<close>

text \<open>
  A second instance, with templates as objects on a heap. A pointer is an index into
  the world, the list of the template objects; an object is the list of the function
  names bound to the template and the list of the files parsed into it. As in
  \<^verbatim>\<open>html/template\<close>, whose \<^verbatim>\<open>Funcs\<close> "must be called before the template is
  parsed", parsing a file that calls a function not yet bound to the template fails.
  The files \<^verbatim>\<open>page.tmpl\<close> and \<^verbatim>\<open>block.tmpl\<close> call the function \<^verbatim>\<open>greet\<close>, the other
  files call none. \<^verbatim>\<open>Funcs\<close> writes the names into the object it is called on.
\<close>

definition funcs_called :: "string \<Rightarrow> string list" where
  "funcs_called file =
     (if file = ''page.tmpl'' \<or> file = ''block.tmpl'' then [''greet''] else [])"

definition heap_parse ::
  "nat option \<Rightarrow> string list \<Rightarrow> (string list \<times> string list) list \<Rightarrow>
     (nat option \<times> error option) res \<times> (string list \<times> string list) list" where
  "heap_parse tmpl names w =
     (case tmpl of
        None \<Rightarrow> (Panic ''nil pointer dereference'', w)
      | Some a \<Rightarrow>
          if \<not> a < length w then (Panic ''invalid pointer'', w)
          else if list_all (\<lambda>n. list_all (\<lambda>f. f \<in> set (fst (w ! a))) (funcs_called n)) names
          then (Ret (Some a, None), w[a := (fst (w ! a), snd (w ! a) @ names)])
          else (Ret (None, Some (Error ''function not defined'')), w))"

definition heap_engine ::
  "(nat, bool, unit, unit, (string list \<times> string list) list) engine" where
  "heap_engine =
     \<lparr>filepath_Base = (\<lambda>path. path),
      template_New = (\<lambda>name w. (Ret (Some (length w)), w @ [([], [])])),
      tmpl_Delims = (\<lambda>tmpl l r w. (Ret tmpl, w)),
      tmpl_ParseFiles = heap_parse,
      tmpl_Funcs = (\<lambda>tmpl fm w.
        case tmpl of
          None \<Rightarrow> (Panic ''nil pointer dereference'', w)
        | Some a \<Rightarrow>
            if \<not> a < length w then (Panic ''invalid pointer'', w)
            else if list_all snd fm
            then (Ret tmpl, w[a := (fst (w ! a) @ map fst fm, snd (w ! a))])
            else (Panic ''bad function signature'', w)),
      tmpl_ParseGlob = (\<lambda>tmpl glob w. heap_parse tmpl [glob] w),
      tmpl_Clone = (\<lambda>tmpl w.
        case tmpl of
          None \<Rightarrow> (Panic ''nil pointer dereference'', w)
        | Some a \<Rightarrow>
            if \<not> a < length w then (Panic ''invalid pointer'', w)
            else (Ret (Some (length w), None), w @ [w ! a])),
      tmpl_Execute = (\<lambda>tmpl wr ctx w.
        case tmpl of
          None \<Rightarrow> (Panic ''nil pointer dereference'', w)
        | Some a \<Rightarrow>
            if \<not> a < length w then (Panic ''invalid pointer'', w) else (Ret None, w))\<rparr>"

lemmas heap_defs = heap_engine_def heap_parse_def funcs_called_def Parse_def Blocks_def Call_def
  Compile_def getCachedGlobs_def Execute_def Let_def fmt_Errorf_v_def

section \<open>Properties\<close>

subsection \<open>Auxiliary facts\<close>

lemma strings_Join_Cons:
  "ys \<noteq> [] \<Longrightarrow> strings_Join (x # ys) sep = x @ sep @ strings_Join ys sep"
  by (cases ys) simp_all

lemma append_sep_eq:
  "c \<notin> set x \<Longrightarrow> c \<notin> set y \<Longrightarrow> x @ c # r = y @ c # s \<Longrightarrow> x = y \<and> r = s"
proof (induction x arbitrary: y)
  case Nil
  then show ?case by (cases y) simp_all
next
  case (Cons a x)
  show ?case
  proof (cases y)
    case Nil
    with Cons.prems show ?thesis by simp
  next
    case (Cons b y')
    with Cons.prems have "c \<notin> set x" "c \<notin> set y'" "x @ c # r = y' @ c # s" "a = b"
      by simp_all
    with Cons.IH [of y'] Cons show ?thesis by simp
  qed
qed

lemma strings_Join_inj:
  assumes "xs \<noteq> []" and "ys \<noteq> []"
    and "\<forall>g\<in>set xs. c \<notin> set g" and "\<forall>g\<in>set ys. c \<notin> set g"
    and "strings_Join xs [c] = strings_Join ys [c]"
  shows "xs = ys"
  using assms
proof (induction xs arbitrary: ys)
  case Nil
  then show ?case by simp
next
  case (Cons x xs)
  from Cons.prems(2) obtain y ys' where ys: "ys = y # ys'"
    by (cases ys) simp_all
  have cx: "c \<notin> set x" and cy: "c \<notin> set y"
    using Cons.prems(3,4) ys by simp_all
  have cxs: "\<forall>g\<in>set xs. c \<notin> set g" and cys: "\<forall>g\<in>set ys'. c \<notin> set g"
    using Cons.prems(3,4) ys by simp_all
  have eq: "strings_Join (x # xs) [c] = strings_Join (y # ys') [c]"
    using Cons.prems(5) ys by simp
  show ?case
  proof (cases "xs = []")
    case xs_empty: True
    show ?thesis
    proof (cases "ys' = []")
      case True
      with xs_empty eq ys show ?thesis by simp
    next
      case False
      with xs_empty eq have "x = y @ c # strings_Join ys' [c]"
        by (simp add: strings_Join_Cons)
      then have "c \<in> set x" by simp
      with cx show ?thesis by simp
    qed
  next
    case xs_nonempty: False
    show ?thesis
    proof (cases "ys' = []")
      case True
      with xs_nonempty eq have "y = x @ c # strings_Join xs [c]"
        by (simp add: strings_Join_Cons)
      then have "c \<in> set y" by simp
      with cy show ?thesis by simp
    next
      case False
      with xs_nonempty eq
      have "x @ c # strings_Join xs [c] = y @ c # strings_Join ys' [c]"
        by (simp add: strings_Join_Cons)
      from append_sep_eq [OF cx cy this]
      have xy: "x = y" and rest: "strings_Join xs [c] = strings_Join ys' [c]"
        by simp_all
      have "xs = ys'"
        by (rule Cons.IH [OF xs_nonempty False cxs cys rest])
      with xy ys show ?thesis by simp
    qed
  qed
qed

lemma Compile_success_iff:
  "Compile eng t w = (Ret None, t', w') \<longleftrightarrow>
     (\<exists>tmpl0 w0 d w1 tmpl w2 f w3 tmpl'.
        template_New eng (filepath_Base eng (base t)) w = (Ret tmpl0, w0) \<and>
        tmpl_Delims eng tmpl0 ''{%'' ''%}'' w0 = (Ret d, w1) \<and>
        tmpl_ParseFiles eng tmpl0 [base t] w1 = (Ret (tmpl, None), w2) \<and>
        tmpl_Funcs eng tmpl (funcs t) w2 = (Ret f, w3) \<and>
        ParseGlob_loop eng tmpl (blocks t) w3 = (Ret (tmpl', None), w') \<and>
        t' = t\<lparr>t_field := tmpl', dirty := False, compiled := Map.empty\<rparr>)"
  unfolding Compile_def
  by (auto split: prod.splits res.splits option.splits)

lemma Compile_failure_state:
  "Compile eng t w = (r, t', w') \<Longrightarrow> r \<noteq> Ret None \<Longrightarrow> t' = t"
  unfolding Compile_def
  by (auto split: prod.splits res.splits option.splits)

lemma getCachedGlobs_store:
  "getCachedGlobs eng m t globs w = (Ret (tmpl, None), t', w') \<Longrightarrow>
   t' = t\<lparr>compiled := (compiled t)(strings_Join globs '','' \<mapsto> tmpl)\<rparr>"
  unfolding getCachedGlobs_def Let_def
  by (auto simp: map_upd_triv split: prod.splits res.splits option.splits bool.splits)

lemma getCachedGlobs_error_state:
  "getCachedGlobs eng m t globs w = (r, t', w') \<Longrightarrow> (\<forall>tmpl. r \<noteq> Ret (tmpl, None)) \<Longrightarrow> t' = t"
  unfolding getCachedGlobs_def Let_def
  by (auto split: prod.splits res.splits option.splits bool.splits)

lemma getCachedGlobs_hit:
  "compiled t (strings_Join globs '','') = Some cached \<Longrightarrow>
   getCachedGlobs eng Production t globs w = (Ret (cached, None), t, w)"
  unfolding getCachedGlobs_def Let_def by simp

lemma getCachedGlobs_miss:
  "m = Development \<or> compiled t (strings_Join globs '','') = None \<Longrightarrow>
   getCachedGlobs eng m t globs w =
     (case tmpl_Clone eng (t_field t) w of
        (Panic e, w0) \<Rightarrow> (Panic e, t, w0)
      | (Ret (tmpl, _), w0) \<Rightarrow>
     (case ParseGlob_loop eng tmpl globs w0 of
        (Panic e, w1) \<Rightarrow> (Panic e, t, w1)
      | (Ret (tmpl', Some err), w1) \<Rightarrow> (Ret (tmpl', Some err), t, w1)
      | (Ret (tmpl', None), w1) \<Rightarrow>
          (Ret (tmpl', None),
           t\<lparr>compiled := (compiled t)(strings_Join globs '','' \<mapsto> tmpl')\<rparr>, w1)))"
  unfolding getCachedGlobs_def Let_def
  by (auto split: prod.splits res.splits option.splits bool.splits)

lemma Execute_clean:
  "\<not> dirty t \<Longrightarrow> Execute eng Production t wr ctx globs w =
     (if length globs > 0 then
        (case getCachedGlobs eng Production t globs w of
           (Panic e, t2, w2) \<Rightarrow> (Panic e, t2, w2)
         | (Ret (_, Some err), t2, w2) \<Rightarrow> (Ret (Some err), t2, w2)
         | (Ret (tmpl, None), t2, w2) \<Rightarrow>
             (case tmpl_Execute eng tmpl wr ctx w2 of (r, w3) \<Rightarrow> (r, t2, w3)))
      else
        (case tmpl_Execute eng (t_field t) wr ctx w of (r, w3) \<Rightarrow> (r, t, w3)))"
  unfolding Execute_def by simp

lemma getCachedGlobs_empty_cache:
  "compiled t = Map.empty \<Longrightarrow>
   getCachedGlobs eng m t globs w = getCachedGlobs eng Production t globs w"
  unfolding getCachedGlobs_def Let_def by simp

lemma Compile_outcome:
  "Compile eng t w = (r, t', w') \<Longrightarrow>
   (r \<noteq> Ret None \<and> t' = t) \<or>
   (r = Ret None \<and> \<not> dirty t' \<and> compiled t' = Map.empty)"
  unfolding Compile_def
  by (auto split: prod.splits res.splits option.splits)

lemma Execute_compiles_first:
  assumes "dirty t \<or> m = Development"
  shows "Execute eng m t wr ctx globs w =
     (case Compile eng t w of
        (Ret None, t1, w1) \<Rightarrow> Execute eng Production t1 wr ctx globs w1
      | (r, t1, w1) \<Rightarrow> (r, t1, w1))"
proof -
  obtain r t1 w1 where c: "Compile eng t w = (r, t1, w1)"
    by (cases "Compile eng t w") auto
  have first: "(if dirty t \<or> m = Development then Compile eng t w else (Ret None, t, w))
      = (r, t1, w1)"
    using assms c by simp
  show ?thesis
  proof (cases r)
    case (Panic e)
    show ?thesis
      unfolding Execute_def first unfolding c Panic by simp
  next
    case (Ret eo)
    show ?thesis
    proof (cases eo)
      case (Some err)
      show ?thesis
        unfolding Execute_def first unfolding c Ret Some by simp
    next
      case None
      from Compile_outcome [OF c] Ret None
      have clean: "\<not> dirty t1" and empty: "compiled t1 = Map.empty"
        by auto
      have same: "getCachedGlobs eng m t1 globs w1 = getCachedGlobs eng Production t1 globs w1"
        by (rule getCachedGlobs_empty_cache [OF empty])
      have lhs: "Execute eng m t wr ctx globs w =
        (if length globs > 0 then
           (case getCachedGlobs eng Production t1 globs w1 of
              (Panic e, t2, w2) \<Rightarrow> (Panic e, t2, w2)
            | (Ret (_, Some err), t2, w2) \<Rightarrow> (Ret (Some err), t2, w2)
            | (Ret (tmpl, None), t2, w2) \<Rightarrow>
                (case tmpl_Execute eng tmpl wr ctx w2 of (r, w3) \<Rightarrow> (r, t2, w3)))
         else
           (case tmpl_Execute eng (t_field t1) wr ctx w1 of (r, w3) \<Rightarrow> (r, t1, w3)))"
        unfolding Execute_def first unfolding Ret None by (simp add: same)
      show ?thesis
        unfolding lhs c Ret None by (simp add: Execute_clean [OF clean, of eng wr ctx globs w1])
    qed
  qed
qed




lemma Compile_base_error:
  assumes new: "template_New eng (filepath_Base eng (base t)) w = (Ret tmpl0, w0)"
    and delims: "tmpl_Delims eng tmpl0 ''{%'' ''%}'' w0 = (Ret d, w1)"
    and parse: "tmpl_ParseFiles eng tmpl0 [base t] w1 = (Ret (p, Some err), w2)"
  shows "Compile eng t w = (Ret (Some err), t, w2)"
  unfolding Compile_def using new delims parse by simp

lemma Execute_renders_compiled:
  assumes need: "dirty t \<or> m = Development"
    and new: "template_New eng (filepath_Base eng (base t)) w = (Ret tmpl0, w0)"
    and delims: "tmpl_Delims eng tmpl0 ''{%'' ''%}'' w0 = (Ret d, w1)"
    and parse: "tmpl_ParseFiles eng tmpl0 [base t] w1 = (Ret (tmpl, None), w2)"
    and bind: "tmpl_Funcs eng tmpl (funcs t) w2 = (Ret f, w3)"
    and loop: "ParseGlob_loop eng tmpl (blocks t) w3 = (Ret (tmpl', None), w4)"
  shows "Execute eng m t wr ctx [] w =
     (case tmpl_Execute eng tmpl' wr ctx w4 of
        (r, w5) \<Rightarrow> (r, t\<lparr>t_field := tmpl', dirty := False, compiled := Map.empty\<rparr>, w5))"
proof -
  have c: "Compile eng t w =
      (Ret None, t\<lparr>t_field := tmpl', dirty := False, compiled := Map.empty\<rparr>, w4)"
    unfolding Compile_success_iff using new delims parse bind loop by blast
  have first: "(if dirty t \<or> m = Development then Compile eng t w else (Ret None, t, w)) =
      (Ret None, t\<lparr>t_field := tmpl', dirty := False, compiled := Map.empty\<rparr>, w4)"
    using need c by simp
  show ?thesis
    unfolding Execute_def first by simp
qed

subsection \<open>The engines at work\<close>

lemma test_clean_compiled:
  "Compile test_engine (Parse ''base.tmpl'') [] = (Ret None, test_clean, [])"
  by (simp add: test_defs test_clean_def)

lemma Execute_after_Blocks_example:
  "Compile test_engine (Parse ''base.tmpl'') [] =
     (Ret None, (Parse ''base.tmpl'')\<lparr>t_field := Some [''base.tmpl'']\<rparr>, []) \<and>
   Execute test_engine Production
     (Blocks ((Parse ''base.tmpl'')\<lparr>t_field := Some [''base.tmpl'']\<rparr>) [''x.tmpl'']) () () [] [] =
     (Ret None,
      (Parse ''base.tmpl'')\<lparr>t_field := Some [''base.tmpl'', ''x.tmpl''],
         blocks := [''x.tmpl'']\<rparr>,
      [[''base.tmpl'', ''x.tmpl'']])"
  by (simp add: test_defs)

lemma Execute_block_calls_function_example:
  "Execute heap_engine Production
     (Blocks (Call (Parse ''base.tmpl'') ''greet'' True) [''block.tmpl'']) () () [] [] =
     (Ret None,
      (Blocks (Call (Parse ''base.tmpl'') ''greet'' True) [''block.tmpl''])
        \<lparr>t_field := Some 0, dirty := False, compiled := Map.empty\<rparr>,
      [([''greet''], [''base.tmpl'', ''block.tmpl''])])"
  by (simp add: heap_defs)

subsection \<open>The state after construction\<close>

text \<open>
  Claim C1. The claim holds that a manager whose \<open>dirty\<close> flag is false always has a
  compiled base, the state after \<^verbatim>\<open>Parse\<close> counting as one that needs compiling. In
  the code \<^verbatim>\<open>Parse\<close> leaves \<open>dirty\<close> false and the base nil, and \<^verbatim>\<open>Execute\<close> in
  Production mode tests \<open>dirty\<close> alone: with no per-call globs it does not compile and
  hands the nil base to the engine's \<^verbatim>\<open>Execute\<close>, for every engine. On the small
  engine, as in \<^verbatim>\<open>html/template\<close>, that call panics, and so does the
  \<^verbatim>\<open>Clone\<close> of the nil base when per-call globs are given.
\<close>

theorem Execute_after_Parse_uses_nil_base:
  "dirty (Parse file :: ('h, 'f) Template) = False \<and>
   t_field (Parse file :: ('h, 'f) Template) = None \<and>
   Execute eng Production (Parse file :: ('h, 'f) Template) wr ctx [] w =
     (case tmpl_Execute eng None wr ctx w of (r, w') \<Rightarrow> (r, Parse file, w')) \<and>
   Execute test_engine Production (Parse ''base.tmpl'') () () [] [] =
     (Panic ''nil pointer dereference'', Parse ''base.tmpl'', []) \<and>
   Execute test_engine Production (Parse ''base.tmpl'') () () [''a.tmpl''] [] =
     (Panic ''nil pointer dereference'', Parse ''base.tmpl'', [])"
  by (simp add: Execute_def getCachedGlobs_def Let_def Parse_def test_engine_def)

subsection \<open>Registration\<close>

text \<open>
  \<^verbatim>\<open>Blocks\<close> and \<^verbatim>\<open>Call\<close> leave the \<open>dirty\<close> flag true, with the globs appended and
  the function bound to its name, and the next \<^verbatim>\<open>Execute\<close>, in either mode and whatever
  base was compiled before, first runs \<^verbatim>\<open>Compile\<close> on the new registrations. When that
  compilation succeeds, what is rendered is the handle it has built from the registered
  globs and functions (\<open>Execute_renders_compiled\<close>, with \<open>Blocks t globs\<close> or
  \<open>Call t name fnc\<close> for the manager).
\<close>

lemma Execute_after_registration_compiles:
  "dirty (Blocks t globs) \<and> blocks (Blocks t globs) = blocks t @ globs \<and>
   dirty (Call t name fnc) \<and> map_of (funcs (Call t name fnc)) name = Some fnc \<and>
   Execute eng m (Blocks t globs) wr ctx gs w =
     (case Compile eng (Blocks t globs) w of
        (Ret None, t1, w1) \<Rightarrow> Execute eng Production t1 wr ctx gs w1
      | (r, t1, w1) \<Rightarrow> (r, t1, w1)) \<and>
   Execute eng m (Call t name fnc) wr ctx gs w =
     (case Compile eng (Call t name fnc) w of
        (Ret None, t1, w1) \<Rightarrow> Execute eng Production t1 wr ctx gs w1
      | (r, t1, w1) \<Rightarrow> (r, t1, w1))"
proof -
  have b: "dirty (Blocks t globs)" and bb: "blocks (Blocks t globs) = blocks t @ globs"
    by (simp_all add: Blocks_def)
  have c: "dirty (Call t name fnc)"
    and cf: "map_of (funcs (Call t name fnc)) name = Some fnc"
    by (simp_all add: Call_def update_conv')
  have eb: "Execute eng m (Blocks t globs) wr ctx gs w =
     (case Compile eng (Blocks t globs) w of
        (Ret None, t1, w1) \<Rightarrow> Execute eng Production t1 wr ctx gs w1
      | (r, t1, w1) \<Rightarrow> (r, t1, w1))"
    by (rule Execute_compiles_first) (simp add: b)
  have ec: "Execute eng m (Call t name fnc) wr ctx gs w =
     (case Compile eng (Call t name fnc) w of
        (Ret None, t1, w1) \<Rightarrow> Execute eng Production t1 wr ctx gs w1
      | (r, t1, w1) \<Rightarrow> (r, t1, w1))"
    by (rule Execute_compiles_first) (simp add: c)
  from b bb c cf eb ec show ?thesis by blast
qed

text \<open>
  Claim C2. The claim holds that the output of the next \<^verbatim>\<open>Execute\<close> reflects the newly
  registered functions, and the comment of \<^verbatim>\<open>Call\<close> promises that the function is
  attached "so the base template can call them". In the code \<^verbatim>\<open>Compile\<close> parses the
  base (line 91) on the template that \<^verbatim>\<open>New\<close> has just made, and binds the functions
  to it only afterwards (line 102). So the parse of the base never sees a registered
  function: whenever the base does not parse on a template without functions,
  \<^verbatim>\<open>Compile\<close> and \<^verbatim>\<open>Execute\<close> after \<^verbatim>\<open>Call\<close> return that error, whatever has been
  registered. With an engine that resolves function names while parsing, as
  \<^verbatim>\<open>html/template\<close> does, a base that calls a registered function never compiles,
  while a block file, parsed after the binding, may call it
  (\<open>Execute_block_calls_function_example\<close>).
\<close>

theorem Execute_after_Call_parses_base_before_Funcs:
  assumes new: "template_New eng (filepath_Base eng (base t)) w = (Ret tmpl0, w0)"
    and delims: "tmpl_Delims eng tmpl0 ''{%'' ''%}'' w0 = (Ret d, w1)"
    and parse: "tmpl_ParseFiles eng tmpl0 [base t] w1 = (Ret (p, Some err), w2)"
  shows "dirty (Call t name fnc) \<and> map_of (funcs (Call t name fnc)) name = Some fnc \<and>
         Compile eng (Call t name fnc) w = (Ret (Some err), Call t name fnc, w2) \<and>
         Execute eng m (Call t name fnc) wr ctx gs w = (Ret (Some err), Call t name fnc, w2)"
proof -
  have d: "dirty (Call t name fnc)"
    and f: "map_of (funcs (Call t name fnc)) name = Some fnc"
    and b: "base (Call t name fnc) = base t"
    by (simp_all add: Call_def update_conv')
  have c: "Compile eng (Call t name fnc) w = (Ret (Some err), Call t name fnc, w2)"
    by (rule Compile_base_error [of eng "Call t name fnc", unfolded b, OF new delims parse])
  have e: "Execute eng m (Call t name fnc) wr ctx gs w = (Ret (Some err), Call t name fnc, w2)"
    unfolding Execute_def using d c by simp
  from d f c e show ?thesis by blast
qed

theorem Execute_after_Call_parses_base_before_Funcs_witness:
  "funcs_called ''page.tmpl'' = [''greet''] \<and>
   map_of (funcs (Call (Parse ''page.tmpl'' :: (nat, bool) Template) ''greet'' True)) ''greet'' =
     Some True \<and>
   Execute heap_engine Production (Call (Parse ''page.tmpl'') ''greet'' True) () () [] [] =
     (Ret (Some (Error ''function not defined'')),
      Call (Parse ''page.tmpl'') ''greet'' True, [([], [])])"
proof -
  let ?t = "Parse ''page.tmpl'' :: (nat, bool) Template"
  have new: "template_New heap_engine (filepath_Base heap_engine (base ?t)) [] =
      (Ret (Some 0), [([], [])])"
    by (simp add: heap_defs)
  have delims: "tmpl_Delims heap_engine (Some 0) ''{%'' ''%}'' [([], [])] =
      (Ret (Some 0), [([], [])])"
    by (simp add: heap_defs)
  have parse: "tmpl_ParseFiles heap_engine (Some 0) [base ?t] [([], [])] =
      (Ret (None, Some (Error ''function not defined'')), [([], [])])"
    by (simp add: heap_defs)
  have called: "funcs_called ''page.tmpl'' = [''greet'']"
    by (simp add: funcs_called_def)
  show ?thesis
    using Execute_after_Call_parses_base_before_Funcs [OF new delims parse, of "''greet''" True
        Production "()" "()" "[]"] called
    by blast
qed

subsection \<open>Compilation\<close>

text \<open>
  Claim C3, as stated, fails: a failed \<^verbatim>\<open>Compile\<close> does not make \<open>dirty\<close> true. On
  the manager that \<^verbatim>\<open>Parse\<close> returns for a file that does not exist, \<^verbatim>\<open>Compile\<close>
  returns the error of the base parse and \<open>dirty\<close> is false afterwards, as it was
  before.
\<close>

theorem Compile_failure_dirty_counterexample:
  "fst (Compile test_engine (Parse ''missing.tmpl'') []) = Ret (Some (Error ''no such file'')) \<and>
   dirty (fst (snd (Compile test_engine (Parse ''missing.tmpl'') []))) = False"
  by (simp add: test_defs)

text \<open>
  Claim C3, amended. Whenever \<^verbatim>\<open>Compile\<close> does not succeed (it returns an error of the
  base parse or of a block glob, or the error made from a recovered panic, or it panics
  before the recovery is in place), the manager is left exactly as it was: \<open>dirty\<close>
  keeps its value, so it stays true where it was true, and the compiled base and the
  per-call cache are those of before.
\<close>

theorem Compile_failure_keeps_state:
  assumes "Compile eng t w = (r, t', w')" and "r \<noteq> Ret None"
  shows "t' = t \<and> dirty t' = dirty t \<and> t_field t' = t_field t \<and> compiled t' = compiled t"
  using Compile_failure_state [OF assms] by simp

theorem Compile_failure_keeps_state_witness:
  "Compile test_engine (Blocks test_stale [''missing.tmpl'']) [] =
     (Ret (Some (Error ''pattern matches no files'')),
      Blocks test_stale [''missing.tmpl''], []) \<and>
   dirty (Blocks test_stale [''missing.tmpl'']) \<and>
   t_field (Blocks test_stale [''missing.tmpl'']) = Some [''old.tmpl''] \<and>
   compiled (Blocks test_stale [''missing.tmpl'']) ''a.tmpl'' =
     Some (Some [''old.tmpl'', ''a.tmpl''])"
proof -
  have run: "Compile test_engine (Blocks test_stale [''missing.tmpl'']) [] =
     (Ret (Some (Error ''pattern matches no files'')),
      Blocks test_stale [''missing.tmpl''], [])"
    by (simp add: test_defs)
  have err: "Ret (Some (Error ''pattern matches no files'')) \<noteq> Ret None"
    by simp
  show ?thesis
    using Compile_failure_keeps_state [OF run err] run
    by (simp add: Blocks_def test_stale_def)
qed




text \<open>
  Claim C5. A call of \<^verbatim>\<open>Compile\<close> that succeeds stores the handle it has just built
  (the base parsed from \<open>base t\<close>, the functions bound, every glob of \<open>blocks t\<close>
  parsed in order) as the compiled base, sets \<open>dirty\<close> to false and replaces the
  per-call cache with the empty map; the base path, the functions and the globs stay.
\<close>

theorem Compile_success_stores:
  assumes "Compile eng t w = (Ret None, t', w')"
  shows "dirty t' = False \<and> compiled t' = Map.empty \<and>
         base t' = base t \<and> funcs t' = funcs t \<and> blocks t' = blocks t \<and>
         (\<exists>tmpl0 w0 d w1 tmpl w2 f w3.
            template_New eng (filepath_Base eng (base t)) w = (Ret tmpl0, w0) \<and>
            tmpl_Delims eng tmpl0 ''{%'' ''%}'' w0 = (Ret d, w1) \<and>
            tmpl_ParseFiles eng tmpl0 [base t] w1 = (Ret (tmpl, None), w2) \<and>
            tmpl_Funcs eng tmpl (funcs t) w2 = (Ret f, w3) \<and>
            ParseGlob_loop eng tmpl (blocks t) w3 = (Ret (t_field t', None), w'))"
proof -
  from assms obtain tmpl0 w0 d w1 tmpl w2 f w3 tmpl' where
    steps: "template_New eng (filepath_Base eng (base t)) w = (Ret tmpl0, w0)"
      "tmpl_Delims eng tmpl0 ''{%'' ''%}'' w0 = (Ret d, w1)"
      "tmpl_ParseFiles eng tmpl0 [base t] w1 = (Ret (tmpl, None), w2)"
      "tmpl_Funcs eng tmpl (funcs t) w2 = (Ret f, w3)"
      "ParseGlob_loop eng tmpl (blocks t) w3 = (Ret (tmpl', None), w')"
    and t': "t' = t\<lparr>t_field := tmpl', dirty := False, compiled := Map.empty\<rparr>"
    unfolding Compile_success_iff by blast
  from t' have fields: "dirty t' = False" "compiled t' = Map.empty" "base t' = base t"
    "funcs t' = funcs t" "blocks t' = blocks t" "t_field t' = tmpl'"
    by simp_all
  from steps fields show ?thesis by blast
qed

theorem Compile_success_stores_witness:
  "Compile test_engine test_stale [] =
     (Ret None,
      test_stale\<lparr>t_field := Some [''base.tmpl'', ''x.tmpl''], dirty := False,
        compiled := Map.empty\<rparr>, []) \<and>
   compiled (fst (snd (Compile test_engine test_stale []))) ''a.tmpl'' = None \<and>
   dirty (fst (snd (Compile test_engine test_stale []))) = False"
proof -
  have run: "Compile test_engine test_stale [] =
     (Ret None,
      test_stale\<lparr>t_field := Some [''base.tmpl'', ''x.tmpl''], dirty := False,
        compiled := Map.empty\<rparr>, [])"
    by (simp add: test_defs)
  show ?thesis
    using Compile_success_stores [OF run] run by simp
qed

subsection \<open>The per-call cache\<close>

text \<open>
  Claim C6, as stated, fails: two glob lists that differ in order can have the same
  key. A glob may contain the separator, and the lists \<^verbatim>\<open>["a", "a,a"]\<close> and
  \<^verbatim>\<open>["a,a", "a"]\<close>, permutations of each other, both have the key \<^verbatim>\<open>a,a,a\<close>.
\<close>

theorem Join_order_counterexample:
  "mset [''a'', ''a,a''] = mset [''a,a'', ''a''] \<and>
   [''a'', ''a,a''] \<noteq> [''a,a'', ''a''] \<and>
   strings_Join [''a'', ''a,a''] '','' = strings_Join [''a,a'', ''a''] '',''"
  by simp

text \<open>
  Claim C6, amended. The key is the glob list joined with a comma, and two glob lists
  that differ in order and whose globs contain no comma have different keys; a
  composition stored for the one list is stored under its own key and leaves the entry
  of the other list as it was.
\<close>

theorem Join_order_distinct_keys:
  assumes perm: "mset xs = mset ys" and diff: "xs \<noteq> ys"
    and nosep: "\<forall>g\<in>set xs. CHR '','' \<notin> set g"
  shows "strings_Join xs '','' \<noteq> strings_Join ys '','' \<and>
         (getCachedGlobs eng m t xs w = (Ret (tmpl, None), t', w') \<longrightarrow>
            compiled t' (strings_Join xs '','') = Some tmpl \<and>
            compiled t' (strings_Join ys '','') = compiled t (strings_Join ys '',''))"
proof -
  from perm have sets: "set xs = set ys"
    by (rule mset_eq_setD)
  from perm diff have xs: "xs \<noteq> []" and ys: "ys \<noteq> []"
    by auto
  from nosep sets have nosep': "\<forall>g\<in>set ys. CHR '','' \<notin> set g"
    by simp
  have keys: "strings_Join xs '','' \<noteq> strings_Join ys '',''"
  proof
    assume "strings_Join xs '','' = strings_Join ys '',''"
    from strings_Join_inj [OF xs ys nosep nosep' this] diff show False by simp
  qed
  have "compiled t' (strings_Join xs '','') = Some tmpl \<and>
        compiled t' (strings_Join ys '','') = compiled t (strings_Join ys '','')"
    if "getCachedGlobs eng m t xs w = (Ret (tmpl, None), t', w')"
    using getCachedGlobs_store [OF that] keys by simp
  with keys show ?thesis by blast
qed

theorem Join_order_distinct_keys_witness:
  "strings_Join [''a/*.tmpl'', ''b/*.tmpl''] '','' \<noteq> strings_Join [''b/*.tmpl'', ''a/*.tmpl''] '','' \<and>
   getCachedGlobs test_engine Production test_clean [''a/*.tmpl'', ''b/*.tmpl''] [] =
     (Ret (Some [''base.tmpl'', ''a/*.tmpl'', ''b/*.tmpl''], None),
      test_clean\<lparr>compiled := [''a/*.tmpl,b/*.tmpl'' \<mapsto>
        Some [''base.tmpl'', ''a/*.tmpl'', ''b/*.tmpl'']]\<rparr>, []) \<and>
   compiled (test_clean\<lparr>compiled := [''a/*.tmpl,b/*.tmpl'' \<mapsto>
        Some [''base.tmpl'', ''a/*.tmpl'', ''b/*.tmpl'']]\<rparr>)
     (strings_Join [''b/*.tmpl'', ''a/*.tmpl''] '','') = None"
proof -
  have perm: "mset [''a/*.tmpl'', ''b/*.tmpl''] = mset [''b/*.tmpl'', ''a/*.tmpl'']"
    by simp
  have diff: "[''a/*.tmpl'', ''b/*.tmpl''] \<noteq> [''b/*.tmpl'', ''a/*.tmpl'']"
    by simp
  have nosep: "\<forall>g\<in>set [''a/*.tmpl'', ''b/*.tmpl'']. CHR '','' \<notin> set g"
    by simp
  have run: "getCachedGlobs test_engine Production test_clean [''a/*.tmpl'', ''b/*.tmpl''] [] =
     (Ret (Some [''base.tmpl'', ''a/*.tmpl'', ''b/*.tmpl''], None),
      test_clean\<lparr>compiled := [''a/*.tmpl,b/*.tmpl'' \<mapsto>
        Some [''base.tmpl'', ''a/*.tmpl'', ''b/*.tmpl'']]\<rparr>, [])"
    by (simp add: test_defs test_clean_def)
  show ?thesis
    using Join_order_distinct_keys [OF perm diff nosep, of test_engine Production test_clean "[]"
        "Some [''base.tmpl'', ''a/*.tmpl'', ''b/*.tmpl'']"
        "test_clean\<lparr>compiled := [''a/*.tmpl,b/*.tmpl'' \<mapsto>
            Some [''base.tmpl'', ''a/*.tmpl'', ''b/*.tmpl'']]\<rparr>" "[]"] run
    by (simp add: test_clean_def)
qed

text \<open>
  Claim C7, as stated, fails: on a dirty manager, or in Development mode, \<^verbatim>\<open>Execute\<close>
  has compiled before it composes, so when the composition then fails the base has
  been replaced and the cache emptied all the same. On the dirty manager
  \<open>test_stale\<close>, \<^verbatim>\<open>Execute\<close> with a glob that matches nothing returns the error, and
  afterwards the base is the new one and the cached entry is gone.
\<close>

theorem Execute_glob_error_after_Compile_counterexample:
  "fst (Execute test_engine Production test_stale () () [''missing.tmpl''] []) =
     Ret (Some (Error ''pattern matches no files'')) \<and>
   t_field test_stale = Some [''old.tmpl''] \<and>
   t_field (fst (snd (Execute test_engine Production test_stale () () [''missing.tmpl''] []))) =
     Some [''base.tmpl'', ''x.tmpl''] \<and>
   compiled test_stale ''a.tmpl'' = Some (Some [''old.tmpl'', ''a.tmpl'']) \<and>
   compiled (fst (snd (Execute test_engine Production test_stale () () [''missing.tmpl''] [])))
     ''a.tmpl'' = None"
  by (simp add: test_defs)

text \<open>
  Claim C7, amended. When the composition for the per-call globs fails with an error of
  a glob, \<^verbatim>\<open>Execute\<close> returns that error with the world as the failed composition left
  it, nothing having been rendered, and the failed composition changes neither the base
  nor the cache: the manager is left as \<open>t1\<close>, the manager on which the composition
  began. That is the caller's manager when it is clean and the mode is Production, and
  otherwise the manager as the successful \<^verbatim>\<open>Compile\<close> at the start of \<^verbatim>\<open>Execute\<close> left
  it, with the new base and the emptied cache.
\<close>

theorem Execute_glob_error_keeps_state:
  assumes first: "(if dirty t \<or> m = Development then Compile eng t w else (Ret None, t, w)) =
      (Ret None, t1, w1)"
    and globs: "globs \<noteq> []"
    and comp: "getCachedGlobs eng m t1 globs w1 = (Ret (tmpl, Some err), t2, w2)"
  shows "t2 = t1 \<and> Execute eng m t wr ctx globs w = (Ret (Some err), t1, w2) \<and>
         (\<not> dirty t \<and> m = Production \<longrightarrow> t1 = t \<and> w1 = w)"
proof -
  have same: "t2 = t1"
    by (rule getCachedGlobs_error_state [OF comp]) simp
  have run: "Execute eng m t wr ctx globs w = (Ret (Some err), t1, w2)"
    unfolding Execute_def first using globs comp same by simp
  have "t1 = t \<and> w1 = w" if "\<not> dirty t \<and> m = Production"
    using first that by simp
  with same run show ?thesis by blast
qed

theorem Execute_glob_error_keeps_state_witness:
  "Execute test_engine Production test_stale () () [''missing.tmpl''] [] =
     (Ret (Some (Error ''pattern matches no files'')),
      test_stale\<lparr>t_field := Some [''base.tmpl'', ''x.tmpl''], dirty := False,
        compiled := Map.empty\<rparr>, []) \<and>
   Execute test_engine Production (test_stale\<lparr>dirty := False\<rparr>) () () [''missing.tmpl''] [] =
     (Ret (Some (Error ''pattern matches no files'')), test_stale\<lparr>dirty := False\<rparr>, [])"
proof -
  let ?t = "test_stale\<lparr>dirty := False\<rparr>"
  let ?c = "test_stale\<lparr>t_field := Some [''base.tmpl'', ''x.tmpl''], dirty := False,
      compiled := Map.empty\<rparr>"
  have globs: "[''missing.tmpl''] \<noteq> []"
    by simp
  have first_dirty: "(if dirty test_stale \<or> Production = Development
      then Compile test_engine test_stale [] else (Ret None, test_stale, [])) =
      (Ret None, ?c, [])"
    by (simp add: test_defs)
  have comp_dirty: "getCachedGlobs test_engine Production ?c [''missing.tmpl''] [] =
      (Ret (None, Some (Error ''pattern matches no files'')), ?c, [])"
    by (simp add: test_defs)
  have first_clean: "(if dirty ?t \<or> Production = Development then Compile test_engine ?t []
      else (Ret None, ?t, [])) = (Ret None, ?t, [])"
    by simp
  have comp_clean: "getCachedGlobs test_engine Production ?t [''missing.tmpl''] [] =
      (Ret (None, Some (Error ''pattern matches no files'')), ?t, [])"
    by (simp add: test_defs)
  show ?thesis
    using Execute_glob_error_keeps_state [OF first_dirty globs comp_dirty, of "()" "()"]
      Execute_glob_error_keeps_state [OF first_clean globs comp_clean, of "()" "()"]
    by blast
qed



text \<open>
  Claim C9. The key is not injective: the lists \<^verbatim>\<open>["a,b"]\<close> and \<^verbatim>\<open>["a", "b"]\<close>
  differ and both have the key \<^verbatim>\<open>a,b\<close>. So, in Production mode, once a composition
  for \<^verbatim>\<open>["a", "b"]\<close> has been stored, a lookup for \<^verbatim>\<open>["a,b"]\<close> returns that
  composition, and \<^verbatim>\<open>Execute\<close> with \<^verbatim>\<open>["a,b"]\<close> on the clean manager renders it.
\<close>

theorem Join_collision_serves_other_entry:
  assumes "getCachedGlobs eng Production t [''a'', ''b''] w = (Ret (tmpl, None), t', w')"
  shows "[''a,b''] \<noteq> [''a'', ''b''] \<and>
         strings_Join [''a,b''] '','' = ''a,b'' \<and> strings_Join [''a'', ''b''] '','' = ''a,b'' \<and>
         getCachedGlobs eng Production t' [''a,b''] w'' = (Ret (tmpl, None), t', w'') \<and>
         (\<not> dirty t' \<longrightarrow>
            Execute eng Production t' wr ctx [''a,b''] w'' =
              (case tmpl_Execute eng tmpl wr ctx w'' of (r, w3) \<Rightarrow> (r, t', w3)))"
proof -
  have keys: "strings_Join [''a,b''] '','' = ''a,b''" "strings_Join [''a'', ''b''] '','' = ''a,b''"
    by simp_all
  from getCachedGlobs_store [OF assms]
  have entry: "compiled t' (strings_Join [''a,b''] '','') = Some tmpl"
    by simp
  have hit: "getCachedGlobs eng Production t' [''a,b''] w'' = (Ret (tmpl, None), t', w'')"
    by (rule getCachedGlobs_hit [OF entry])
  have "Execute eng Production t' wr ctx [''a,b''] w'' =
      (case tmpl_Execute eng tmpl wr ctx w'' of (r, w3) \<Rightarrow> (r, t', w3))"
    if "\<not> dirty t'"
    unfolding Execute_clean [OF that] hit by simp
  with keys hit show ?thesis by simp
qed

theorem Join_collision_serves_other_entry_witness:
  "getCachedGlobs test_engine Production test_clean [''a'', ''b''] [] =
     (Ret (Some [''base.tmpl'', ''a'', ''b''], None),
      test_clean\<lparr>compiled := [''a,b'' \<mapsto> Some [''base.tmpl'', ''a'', ''b'']]\<rparr>, []) \<and>
   Execute test_engine Production
     (test_clean\<lparr>compiled := [''a,b'' \<mapsto> Some [''base.tmpl'', ''a'', ''b'']]\<rparr>) () ()
     [''a,b''] [] =
     (Ret None, test_clean\<lparr>compiled := [''a,b'' \<mapsto> Some [''base.tmpl'', ''a'', ''b'']]\<rparr>,
      [[''base.tmpl'', ''a'', ''b'']])"
proof -
  let ?t' = "test_clean\<lparr>compiled := [''a,b'' \<mapsto> Some [''base.tmpl'', ''a'', ''b'']]\<rparr>"
  have run: "getCachedGlobs test_engine Production test_clean [''a'', ''b''] [] =
     (Ret (Some [''base.tmpl'', ''a'', ''b''], None), ?t', [])"
    by (simp add: test_defs test_clean_def)
  have clean: "\<not> dirty ?t'"
    by (simp add: test_clean_def)
  have render: "tmpl_Execute test_engine (Some [''base.tmpl'', ''a'', ''b'']) () () [] =
      (Ret None, [[''base.tmpl'', ''a'', ''b'']])"
    by (simp add: test_engine_def)
  show ?thesis
    using Join_collision_serves_other_entry [OF run, of "[]" "()" "()"] run clean render
    by simp
qed

text \<open>
  Claim C10. On a miss, when \<^verbatim>\<open>Clone\<close> returns nil and an error, the error is
  dropped: the result of \<^verbatim>\<open>getCachedGlobs\<close> is what parsing the globs into the nil
  pointer gives, starting with \<^verbatim>\<open>ParseGlob\<close> on nil for the first glob, and the
  error of \<^verbatim>\<open>Clone\<close> appears nowhere in it. On the small engine the composition
  then succeeds without the base and is cached.
\<close>

theorem getCachedGlobs_drops_Clone_error:
  assumes miss: "m = Development \<or> compiled t (strings_Join (glob # globs) '','') = None"
    and clone: "tmpl_Clone eng (t_field t) w = (Ret (None, Some cerr), w0)"
  shows "getCachedGlobs eng m t (glob # globs) w =
     (case tmpl_ParseGlob eng None glob w0 of
        (Panic e, w1) \<Rightarrow> (Panic e, t, w1)
      | (Ret (tmpl', Some err), w1) \<Rightarrow> (Ret (tmpl', Some err), t, w1)
      | (Ret (tmpl', None), w1) \<Rightarrow>
     (case ParseGlob_loop eng tmpl' globs w1 of
        (Panic e, w2) \<Rightarrow> (Panic e, t, w2)
      | (Ret (tmpl'', Some err), w2) \<Rightarrow> (Ret (tmpl'', Some err), t, w2)
      | (Ret (tmpl'', None), w2) \<Rightarrow>
          (Ret (tmpl'', None),
           t\<lparr>compiled := (compiled t)(strings_Join (glob # globs) '','' \<mapsto> tmpl'')\<rparr>,
           w2)))"
  unfolding getCachedGlobs_miss [OF miss] clone
  by (simp split: prod.splits res.splits option.splits)

theorem getCachedGlobs_drops_Clone_error_witness:
  "tmpl_Clone test_engine (t_field test_clean) test_rendered =
     (Ret (None, Some (Error ''cannot Clone after it has executed'')), test_rendered) \<and>
   getCachedGlobs test_engine Production test_clean [''a.tmpl''] test_rendered =
     (Ret (Some [''a.tmpl''], None),
      test_clean\<lparr>compiled := [''a.tmpl'' \<mapsto> Some [''a.tmpl'']]\<rparr>, test_rendered)"
proof -
  have miss: "Production = Development \<or>
      compiled test_clean (strings_Join (''a.tmpl'' # []) '','') = None"
    by (simp add: test_clean_def)
  have clone: "tmpl_Clone test_engine (t_field test_clean) test_rendered =
     (Ret (None, Some (Error ''cannot Clone after it has executed'')), test_rendered)"
    by (simp add: test_engine_def test_clean_def test_rendered_def)
  have parse: "tmpl_ParseGlob test_engine None ''a.tmpl'' test_rendered =
     (Ret (Some [''a.tmpl''], None), test_rendered)"
    by (simp add: test_engine_def test_exists_def)
  show ?thesis
    using getCachedGlobs_drops_Clone_error [OF miss clone] clone parse
    by (simp add: test_clean_def)
qed

end
